theory Spec2Isabelle
  imports
    Complex_Main
    "HOL-Library.AList"
    "HOL-Library.Char_ord"
    "HOL-Library.List_Lexorder"
    "HOL-Library.Product_Lexorder"
begin

section \<open>Values\<close>

text \<open>
  A Python/pandas float. The special values of IEEE arithmetic are explicit; a finite
  value is a real number, so rounding of finite results is not part of the model.
\<close>

datatype pfloat = Fin real | PInf | NInf | NaN

text \<open>A parsed JSON value, as \<^verbatim>\<open>request.get_json()\<close> hands it to the handler.\<close>

datatype json =
    JNull
  | JBool bool
  | JInt int
  | JFloat pfloat
  | JStr string
  | JArray "json list"
  | JObject "(string \<times> json) list"

text \<open>
  A Python dict with string keys: its items in insertion order. The keys of a dict are
  distinct; \<open>map_of\<close> is the lookup and \<open>AList.update\<close> the assignment to a key.
\<close>

type_synonym py_dict = "(string \<times> json) list"

datatype py_error =
    FileNotFoundError string
  | UnpicklingError
  | ValueError string
  | KeyError "string list"
  | TypeError
  | OverflowError
  | EstimatorFailure

section \<open>Data frames on the prediction path\<close>

record dataframe =
  columns :: "string list"
  rows :: "json list list"

text \<open>Distinct elements in order of first occurrence (pandas keeps the first).\<close>

primrec drop_duplicates :: "'a list \<Rightarrow> 'a list" where
  "drop_duplicates [] = []"
| "drop_duplicates (x # xs) = x # filter (\<lambda>y. y \<noteq> x) (drop_duplicates xs)"

text \<open>
  \<^verbatim>\<open>pd.DataFrame(list_of_dicts)\<close>: the columns are the keys in order of first
  appearance, a key that a dict lacks gives a NaN cell. A cell is kept as the dict has
  it; the numeric type that pandas gives the cells of a column of several rows (an
  integer beside a float is stored as a float) is not part of the model.
\<close>

definition DataFrame :: "py_dict list \<Rightarrow> dataframe" where
  "DataFrame ds =
     (let cols = drop_duplicates (concat (map (map fst) ds)) in
      \<lparr>columns = cols,
       rows = map (\<lambda>d. map (\<lambda>c. case map_of d c of Some v \<Rightarrow> v | None \<Rightarrow> JFloat NaN) cols) ds\<rparr>)"

text \<open>
  \<^verbatim>\<open>df[cols]\<close> with a list of labels: a new frame with exactly these columns in
  this order; \<^verbatim>\<open>KeyError\<close> naming the labels that are not columns of \<open>df\<close>.
\<close>

definition getitem :: "dataframe \<Rightarrow> string list \<Rightarrow> py_error + dataframe" where
  "getitem df cols =
     (let missing = filter (\<lambda>c. c \<notin> set (columns df)) cols in
      if missing \<noteq> [] then Inl (KeyError missing)
      else Inr \<lparr>columns = cols,
                rows = map (\<lambda>r. map (\<lambda>c. case map_of (zip (columns df) r) c of
                                             Some v \<Rightarrow> v | None \<Rightarrow> JFloat NaN) cols)
                         (rows df)\<rparr>)"

section \<open>Model store: \<^verbatim>\<open>load_model\<close> (backend/model/predict.py)\<close>

text \<open>
  What lies at a path of the file system: nothing, an artifact that \<^verbatim>\<open>joblib.load\<close>
  deserialises to a model, or a file on which \<^verbatim>\<open>joblib.load\<close> raises. A model is an
  object: an artifact does not deserialise to \<^verbatim>\<open>None\<close>.
\<close>

datatype 'm stored = Artifact 'm | Corrupt

type_synonym 'm disk = "string \<Rightarrow> 'm stored option"

text \<open>
  Effects outside the module's two globals: each \<^verbatim>\<open>os.path.exists\<close>, each
  \<^verbatim>\<open>joblib.load\<close> and each invocation of the estimator is recorded in a trace.
\<close>

datatype event = PathExists string | JoblibLoad string | EstimatorCall dataframe

text \<open>
  The module globals \<^verbatim>\<open>_cached_model\<close> and \<^verbatim>\<open>_model_path\<close> (both \<^verbatim>\<open>None\<close> at
  import), and the trace.
\<close>

record 'm world =
  cached_model :: "'m option"
  model_path :: "string option"
  trace :: "event list"

definition initial_world :: "'m world" where
  "initial_world = \<lparr>cached_model = None, model_path = None, trace = []\<rparr>"

definition load_model :: "'m disk \<Rightarrow> 'm world \<Rightarrow> string \<Rightarrow> (py_error + 'm) \<times> 'm world" where
  "load_model disk w p =
     (case (if model_path w = Some p then cached_model w else None) of
        Some m \<Rightarrow> (Inr m, w)
      | None \<Rightarrow>
          (let w1 = w\<lparr>trace := trace w @ [PathExists p]\<rparr> in
           case disk p of
             None \<Rightarrow> (Inl (FileNotFoundError p), w1)
           | Some f \<Rightarrow>
               (let w2 = w1\<lparr>trace := trace w1 @ [JoblibLoad p]\<rparr> in
                case f of
                  Corrupt \<Rightarrow> (Inl UnpicklingError, w2)
                | Artifact m \<Rightarrow> (Inr m, w2\<lparr>cached_model := Some m, model_path := Some p\<rparr>))))"

text \<open>A sequence of calls, one after the other, on the same file system.\<close>

fun load_models :: "'m disk \<Rightarrow> 'm world \<Rightarrow> string list \<Rightarrow> (py_error + 'm) list \<times> 'm world" where
  "load_models disk w [] = ([], w)"
| "load_models disk w (p # ps) =
     (case load_model disk w p of
        (r, w') \<Rightarrow> (case load_models disk w' ps of (rs, w'') \<Rightarrow> (r # rs, w'')))"

subsection \<open>Callers that overlap\<close>

text \<open>
  The two parts of a call: the test of the cache in the first statement, which yields the
  cached model or falls through, and the \<^verbatim>\<open>try\<close> block, which checks the path, loads,
  assigns the two globals and returns. The function takes no lock, so nothing makes the
  two parts of one call a unit: another caller may run between them.
\<close>

definition load_model_check :: "'m world \<Rightarrow> string \<Rightarrow> 'm option" where
  "load_model_check w p = (if model_path w = Some p then cached_model w else None)"

definition load_model_load :: "'m disk \<Rightarrow> 'm world \<Rightarrow> string \<Rightarrow> (py_error + 'm) \<times> 'm world" where
  "load_model_load disk w p =
     (let w1 = w\<lparr>trace := trace w @ [PathExists p]\<rparr> in
      case disk p of
        None \<Rightarrow> (Inl (FileNotFoundError p), w1)
      | Some f \<Rightarrow>
          (let w2 = w1\<lparr>trace := trace w1 @ [JoblibLoad p]\<rparr> in
           case f of
             Corrupt \<Rightarrow> (Inl UnpicklingError, w2)
           | Artifact m \<Rightarrow> (Inr m, w2\<lparr>cached_model := Some m, model_path := Some p\<rparr>)))"

text \<open>
  Where a caller stands: it has called and not yet tested the cache, it has found the
  cache empty for its path and not yet loaded, or it has returned.
\<close>

datatype 'm caller = Called | Missed | Returned "py_error + 'm"

text \<open>
  One part of caller \<open>i\<close> runs (all callers ask for the path \<open>p\<close>); a schedule is the
  order in which the callers get their turns. A caller that has returned does nothing.
\<close>

definition step_caller ::
  "'m disk \<Rightarrow> string \<Rightarrow> 'm world \<times> 'm caller list \<Rightarrow> nat \<Rightarrow> 'm world \<times> 'm caller list" where
  "step_caller disk p st i =
     (case st of (w, cs) \<Rightarrow>
        if i < length cs then
          (case cs ! i of
             Called \<Rightarrow>
               (case load_model_check w p of
                  Some m \<Rightarrow> (w, cs[i := Returned (Inr m)])
                | None \<Rightarrow> (w, cs[i := Missed]))
           | Missed \<Rightarrow>
               (case load_model_load disk w p of (r, w') \<Rightarrow> (w', cs[i := Returned r]))
           | Returned r \<Rightarrow> (w, cs))
        else (w, cs))"

definition interleave ::
  "'m disk \<Rightarrow> string \<Rightarrow> nat list \<Rightarrow> 'm world \<times> 'm caller list \<Rightarrow> 'm world \<times> 'm caller list" where
  "interleave disk p schedule st = foldl (step_caller disk p) st schedule"

section \<open>Feature contract and \<^verbatim>\<open>predict_match\<close> (backend/model/predict.py)\<close>

text \<open>The list checked by the validation loops of \<^verbatim>\<open>predict_match\<close> and of the handler.\<close>

definition required_fields :: "string list" where
  "required_fields =
     [''batting_team'', ''bowling_team'', ''venue'', ''city'',
      ''total_runs'', ''total_wickets'', ''overs_played'',
      ''extras_total'', ''run_rate'']"

text \<open>The column order of \<^verbatim>\<open>predict_match\<close> and \<^verbatim>\<open>batch_predict\<close>.\<close>

definition feature_columns :: "string list" where
  "feature_columns =
     [''batting_team'', ''bowling_team'', ''venue'', ''city'',
      ''total_runs'', ''total_wickets'', ''run_rate'',
      ''extras_total'', ''overs_played'']"




text \<open>
  The reordering step: \<^verbatim>\<open>pd.DataFrame([input_dict])[feature_columns]\<close> in
  \<^verbatim>\<open>predict_match\<close>, \<^verbatim>\<open>pd.DataFrame(input_list)[feature_columns]\<close> in
  \<^verbatim>\<open>batch_predict\<close>.
\<close>

definition reorder :: "py_dict \<Rightarrow> py_error + dataframe" where
  "reorder input_dict = getitem (DataFrame [input_dict]) feature_columns"

definition reorder_batch :: "py_dict list \<Rightarrow> py_error + dataframe" where
  "reorder_batch input_list = getitem (DataFrame input_list) feature_columns"

text \<open>
  The estimator is opaque: \<open>infer model input_df\<close> stands for the calls of
  \<^verbatim>\<open>model.predict\<close> and \<^verbatim>\<open>model.predict_proba\<close> on the reordered frame and the packaging
  of their output into the result dict (or the exception they raise). Every exception
  is printed and raised again by the function's handler, so an error is returned as it is.
\<close>

definition predict_match ::
  "('m \<Rightarrow> dataframe \<Rightarrow> py_error + 'r) \<Rightarrow> 'm disk \<Rightarrow> 'm world \<Rightarrow> py_dict \<Rightarrow> string
   \<Rightarrow> (py_error + 'r) \<times> 'm world" where
  "predict_match infer disk w input_dict p =
     (case load_model disk w p of
        (Inl e, w1) \<Rightarrow> (Inl e, w1)
      | (Inr model, w1) \<Rightarrow>
          (case find (\<lambda>field. field \<notin> set (map fst input_dict)) required_fields of
             Some field \<Rightarrow> (Inl (ValueError (''Missing required field: '' @ field)), w1)
           | None \<Rightarrow>
               (case reorder input_dict of
                  Inl e \<Rightarrow> (Inl e, w1)
                | Inr input_df \<Rightarrow>
                    (infer model input_df,
                     w1\<lparr>trace := trace w1 @ [EstimatorCall input_df]\<rparr>))))"

definition batch_predict ::
  "('m \<Rightarrow> dataframe \<Rightarrow> py_error + 'r) \<Rightarrow> 'm disk \<Rightarrow> 'm world \<Rightarrow> py_dict list \<Rightarrow> string
   \<Rightarrow> (py_error + 'r) \<times> 'm world" where
  "batch_predict infer disk w input_list p =
     (case load_model disk w p of
        (Inl e, w1) \<Rightarrow> (Inl e, w1)
      | (Inr model, w1) \<Rightarrow>
          (case reorder_batch input_list of
             Inl e \<Rightarrow> (Inl e, w1)
           | Inr input_df \<Rightarrow>
               (infer model input_df,
                w1\<lparr>trace := trace w1 @ [EstimatorCall input_df]\<rparr>)))"

section \<open>The request handler \<^verbatim>\<open>predict\<close> (backend/app.py)\<close>

subsection \<open>Python operations on request values\<close>

text \<open>
  \<^verbatim>\<open>float(v)\<close>. The grammar of \<^verbatim>\<open>float\<close> on a string is the parameter \<open>parse\<close>
  (\<open>None\<close>: \<^verbatim>\<open>ValueError\<close>; the result may be an infinity or NaN, as for \<^verbatim>\<open>"inf"\<close>
  and \<^verbatim>\<open>"nan"\<close>). An integer converts when it rounds to a finite double, and raises
  \<^verbatim>\<open>OverflowError\<close> otherwise.
\<close>

definition py_float :: "(string \<Rightarrow> pfloat option) \<Rightarrow> json \<Rightarrow> py_error + pfloat" where
  "py_float parse v =
     (case v of
        JNull \<Rightarrow> Inl TypeError
      | JBool b \<Rightarrow> Inr (Fin (if b then 1 else 0))
      | JInt i \<Rightarrow> if \<bar>i\<bar> < 2 ^ 1024 - 2 ^ 970 then Inr (Fin (of_int i)) else Inl OverflowError
      | JFloat f \<Rightarrow> Inr f
      | JStr s \<Rightarrow> (case parse s of None \<Rightarrow> Inl (ValueError s) | Some f \<Rightarrow> Inr f)
      | JArray xs \<Rightarrow> Inl TypeError
      | JObject kvs \<Rightarrow> Inl TypeError)"

text \<open>\<^verbatim>\<open>x < y\<close> and \<^verbatim>\<open>x <= y\<close> on floats: every comparison with NaN is false.\<close>

fun pf_less :: "pfloat \<Rightarrow> pfloat \<Rightarrow> bool" where
  "pf_less NaN y = False"
| "pf_less x NaN = False"
| "pf_less (Fin a) (Fin b) = (a < b)"
| "pf_less (Fin a) PInf = True"
| "pf_less (Fin a) NInf = False"
| "pf_less PInf y = False"
| "pf_less NInf NInf = False"
| "pf_less NInf y = True"

fun pf_le :: "pfloat \<Rightarrow> pfloat \<Rightarrow> bool" where
  "pf_le NaN y = False"
| "pf_le x NaN = False"
| "pf_le (Fin a) (Fin b) = (a \<le> b)"
| "pf_le (Fin a) PInf = True"
| "pf_le (Fin a) NInf = False"
| "pf_le PInf PInf = True"
| "pf_le PInf y = False"
| "pf_le NInf y = True"

text \<open>
  \<^verbatim>\<open>a == b\<close> on parsed JSON values: numbers (booleans included) compare by value,
  strings by content, lists element by element, dicts as mappings whatever the order of
  their items. Both values are brought to a normal form. A float NaN is not equal to
  itself; inside a list or a dict the elements are first tested for identity, and every
  NaN the JSON parser produces is the same object, so two containers that hold NaN at the
  same places are equal.
\<close>

datatype jnorm =
    NNull
  | NNum pfloat
  | NStr string
  | NArr "jnorm list"
  | NDict "(string \<times> jnorm) list"

primrec normalise :: "json \<Rightarrow> jnorm" where
  "normalise JNull = NNull"
| "normalise (JBool b) = NNum (Fin (if b then 1 else 0))"
| "normalise (JInt i) = NNum (Fin (of_int i))"
| "normalise (JFloat f) = NNum f"
| "normalise (JStr s) = NStr s"
| "normalise (JArray xs) = NArr (map normalise xs)"
| "normalise (JObject kvs) = NDict (sort_key fst (map (map_prod id normalise) kvs))"

definition py_eq :: "json \<Rightarrow> json \<Rightarrow> bool" where
  "py_eq a b = (normalise a = normalise b \<and> a \<noteq> JFloat NaN)"

text \<open>\<^verbatim>\<open>sep.join(xs)\<close>.\<close>

fun join :: "string \<Rightarrow> string list \<Rightarrow> string" where
  "join sep [] = []"
| "join sep [x] = x"
| "join sep (x # y # ys) = x @ sep @ join sep (y # ys)"

subsection \<open>Requests and responses\<close>

datatype http_method = POST | OPTIONS

text \<open>
  The request as the handler reads it: the method and the result of
  \<^verbatim>\<open>request.get_json()\<close>, \<open>None\<close> or a JSON object (the request schema is an object;
  a body that parses to another kind of JSON value is outside the model).
\<close>

record request =
  http_method :: http_method
  body :: "py_dict option"

text \<open>
  The responses of the handler: the status 204 of the preflight; a 400 with its
  message; the 400 for missing fields, which also carries \<^verbatim>\<open>required_fields\<close>; a 500
  with its message and the exception caught; the 200 with the prediction result and the
  echoed input data.
\<close>

datatype 'r response =
    NoContent
  | BadRequest string
  | MissingFields string "string list"
  | ServerError string py_error
  | Success 'r py_dict

fun status_code :: "'r response \<Rightarrow> nat" where
  "status_code NoContent = 204"
| "status_code (BadRequest msg) = 400"
| "status_code (MissingFields msg required) = 400"
| "status_code (ServerError msg e) = 500"
| "status_code (Success r d) = 200"

definition numeric_fields :: "string list" where
  "numeric_fields =
     [''total_runs'', ''total_wickets'', ''overs_played'', ''extras_total'', ''run_rate'']"

text \<open>
  The loop over \<^verbatim>\<open>numeric_fields\<close>: each value is replaced by its float in the dict; the
  first value that does not convert, or is negative, ends the request. The inner handler
  catches \<^verbatim>\<open>ValueError\<close> and \<^verbatim>\<open>TypeError\<close> only, so an \<^verbatim>\<open>OverflowError\<close> or a
  \<^verbatim>\<open>KeyError\<close> reaches the outer handler and becomes a 500.
\<close>

fun validate_numeric ::
  "(string \<Rightarrow> pfloat option) \<Rightarrow> py_dict \<Rightarrow> string list \<Rightarrow> 'r response + py_dict" where
  "validate_numeric parse data [] = Inr data"
| "validate_numeric parse data (field # remaining) =
     (case map_of data field of
        None \<Rightarrow> Inl (ServerError ''Prediction failed'' (KeyError [field]))
      | Some v \<Rightarrow>
          (case py_float parse v of
             Inl OverflowError \<Rightarrow> Inl (ServerError ''Prediction failed'' OverflowError)
           | Inl e \<Rightarrow> Inl (BadRequest (field @ '' must be a valid number''))
           | Inr x \<Rightarrow>
               if pf_less x (Fin 0) then Inl (BadRequest (field @ '' cannot be negative''))
               else validate_numeric parse (AList.update field (JFloat x) data) remaining))"

text \<open>\<^verbatim>\<open>data[key] > bound\<close> for a value the loop has stored as a float.\<close>

definition exceeds :: "py_dict \<Rightarrow> string \<Rightarrow> real \<Rightarrow> bool" where
  "exceeds data key bound =
     (case map_of data key of Some (JFloat x) \<Rightarrow> pf_less (Fin bound) x | _ \<Rightarrow> False)"

definition same_teams :: "py_dict \<Rightarrow> bool" where
  "same_teams data =
     (case (map_of data ''batting_team'', map_of data ''bowling_team'') of
        (Some a, Some b) \<Rightarrow> py_eq a b
      | _ \<Rightarrow> False)"

text \<open>
  The handler. \<open>MODEL_PATH\<close> depends on where the package is installed and is a
  parameter. The state is returned with the response.
\<close>

definition predict ::
  "(string \<Rightarrow> pfloat option) \<Rightarrow> ('m \<Rightarrow> dataframe \<Rightarrow> py_error + 'r) \<Rightarrow> string \<Rightarrow> 'm disk
   \<Rightarrow> 'm world \<Rightarrow> request \<Rightarrow> 'r response \<times> 'm world" where
  "predict parse infer MODEL_PATH disk w req =
     (if http_method req = OPTIONS then (NoContent, w)
      else case body req of
        None \<Rightarrow> (BadRequest ''No JSON data provided'', w)
      | Some data0 \<Rightarrow>
          if data0 = [] then (BadRequest ''No JSON data provided'', w)
          else
            (let missing_fields = filter (\<lambda>field. field \<notin> set (map fst data0)) required_fields in
             if missing_fields \<noteq> [] then
               (MissingFields (''Missing required fields: '' @ join '', '' missing_fields)
                  required_fields, w)
             else
               (case validate_numeric parse data0 numeric_fields of
                  Inl resp \<Rightarrow> (resp, w)
                | Inr data \<Rightarrow>
                    if exceeds data ''overs_played'' 20 then
                      (BadRequest ''overs_played cannot exceed 20 in T20 cricket'', w)
                    else if exceeds data ''total_wickets'' 10 then
                      (BadRequest ''total_wickets cannot exceed 10'', w)
                    else if same_teams data then
                      (BadRequest ''batting_team and bowling_team must be different'', w)
                    else
                      (case predict_match infer disk w data MODEL_PATH of
                         (Inr result, w') \<Rightarrow> (Success result data, w')
                       | (Inl (FileNotFoundError msg), w') \<Rightarrow>
                           (ServerError ''Model file not found. Please train the model first.''
                              (FileNotFoundError msg), w')
                       | (Inl e, w') \<Rightarrow> (ServerError ''Prediction failed'' e, w')))))"

section \<open>Tables of the feature pipeline (backend/preprocessing/feature_engineering.py)\<close>

text \<open>
  One row of the ball-by-ball table, with the columns that \<^verbatim>\<open>aggregate_features\<close>
  reads. A cell may be null (\<open>None\<close>). Runs are integers; sums of \<^verbatim>\<open>int64\<close> cells
  are modelled as unbounded integers.
\<close>

record delivery =
  match_id :: "int option"
  innings :: "int option"
  batting_team :: "string option"
  bowling_team :: "string option"
  venue :: "string option"
  city :: "string option"
  season :: "string option"
  runs_batter :: "int option"
  runs_extras :: "int option"
  wicket_kind :: "string option"
  ball :: "int option"
  match_won_by :: "string option"

text \<open>
  The ball-by-ball frame: its rows, and the column \<^verbatim>\<open>is_wicket\<close>, which the raw table
  does not have (\<open>None\<close>) until \<^verbatim>\<open>aggregate_features\<close> writes it.
\<close>

record raw_frame =
  deliveries :: "delivery list"
  is_wicket :: "int list option"

text \<open>
  One row of the table that \<^verbatim>\<open>aggregate_features\<close> returns and \<^verbatim>\<open>clean_data\<close>
  takes: the fourteen columns of \<^verbatim>\<open>final_features\<close>. \<^verbatim>\<open>clean_data\<close> accepts any such
  table, so every cell may be null; in the two float columns null is NaN.
\<close>

record innings_summary =
  match_id :: "int option"
  innings :: "int option"
  season :: "string option"
  venue :: "string option"
  city :: "string option"
  batting_team :: "string option"
  bowling_team :: "string option"
  total_runs :: "int option"
  total_wickets :: "int option"
  balls_faced :: "int option"
  overs_played :: pfloat
  run_rate :: pfloat
  extras_total :: "int option"
  target :: "int option"

text \<open>
  A row of the local frame \<^verbatim>\<open>aggregated\<close>, which has two more columns;
  \<^verbatim>\<open>final_features\<close> is its restriction to the fourteen.
\<close>

record aggregated_row = innings_summary +
  runs_off_bat_total :: "int option"
  winner :: "string option"

text \<open>
  Frames are objects: a caller and a callee share them by reference. The store holds the
  frames that exist, a reference is an index into it, a new frame goes to the end.
\<close>

datatype frame = RawFrame raw_frame | SummaryFrame "innings_summary list"

type_synonym store = "frame list"

definition lookup :: "store \<Rightarrow> nat \<Rightarrow> frame option" where
  "lookup s a = (if a < length s then Some (s ! a) else None)"

definition alloc :: "store \<Rightarrow> frame \<Rightarrow> nat \<times> store" where
  "alloc s f = (length s, s @ [f])"

definition summary_rows :: "store \<Rightarrow> nat \<Rightarrow> innings_summary list" where
  "summary_rows s a = (case lookup s a of Some (SummaryFrame rs) \<Rightarrow> rs | _ \<Rightarrow> [])"

section \<open>Aggregator: \<^verbatim>\<open>aggregate_features\<close>\<close>

text \<open>
  The grouping key of a row. \<^verbatim>\<open>groupby\<close> drops a row whose key has a null part
  (\<^verbatim>\<open>dropna=True\<close> is the default).
\<close>

definition key_of :: "delivery \<Rightarrow> (int \<times> int \<times> string) option" where
  "key_of d =
     (case (delivery.match_id d, delivery.innings d, delivery.batting_team d) of
        (Some m, Some i, Some b) \<Rightarrow> Some (m, i, b)
      | _ \<Rightarrow> None)"

text \<open>The aggregations: \<^verbatim>\<open>'sum'\<close> and \<^verbatim>\<open>'count'\<close> skip nulls, \<^verbatim>\<open>'first'\<close> is the first
  cell that is not null (null when there is none).\<close>

definition sum_valid :: "int option list \<Rightarrow> int" where
  "sum_valid xs = sum_list (map (\<lambda>x. case x of Some n \<Rightarrow> n | None \<Rightarrow> 0) xs)"

definition count_valid :: "'a option list \<Rightarrow> nat" where
  "count_valid xs = length (filter (\<lambda>x. x \<noteq> None) xs)"

fun first_valid :: "'a option list \<Rightarrow> 'a option" where
  "first_valid [] = None"
| "first_valid (None # xs) = first_valid xs"
| "first_valid (Some x # xs) = Some x"

text \<open>
  Division of two finite floats, as numpy does it: a zero divisor (here always +0.0, a
  count divided by 6) gives an infinity with the sign of the dividend, or NaN for 0/0.
\<close>

definition truediv :: "real \<Rightarrow> real \<Rightarrow> pfloat" where
  "truediv a b =
     (if b \<noteq> 0 then Fin (a / b) else if 0 < a then PInf else if a < 0 then NInf else NaN)"

text \<open>\<^verbatim>\<open>.replace([np.inf, -np.inf], 0)\<close> and \<^verbatim>\<open>.fillna(0)\<close> on a float cell.\<close>

fun replace_inf :: "pfloat \<Rightarrow> pfloat" where
  "replace_inf PInf = Fin 0"
| "replace_inf NInf = Fin 0"
| "replace_inf x = x"

fun fillna_zero :: "pfloat \<Rightarrow> pfloat" where
  "fillna_zero NaN = Fin 0"
| "fillna_zero x = x"

text \<open>
  The group of a key: the rows with this key, each with its \<^verbatim>\<open>is_wicket\<close> cell, in the
  order of the table.
\<close>

definition group_rows :: "(delivery \<times> int) list \<Rightarrow> int \<times> int \<times> string \<Rightarrow> (delivery \<times> int) list" where
  "group_rows tbl k = filter (\<lambda>(d, w). key_of d = Some k) tbl"

text \<open>
  One row of \<^verbatim>\<open>aggregated\<close>: the aggregation of a group, the renamed columns, the
  derived columns and the target.
\<close>

definition aggregate_group :: "int \<times> int \<times> string \<Rightarrow> (delivery \<times> int) list \<Rightarrow> aggregated_row" where
  "aggregate_group k g =
     (case k of (m, i, b) \<Rightarrow>
        (let bat = sum_valid (map (runs_batter \<circ> fst) g);
             extras = sum_valid (map (runs_extras \<circ> fst) g);
             wickets = sum_list (map snd g);
             balls = count_valid (map (ball \<circ> fst) g);
             won = first_valid (map (match_won_by \<circ> fst) g);
             runs = bat + extras;
             overs = real balls / 6;
             rate = fillna_zero (replace_inf (truediv (real_of_int runs) overs))
         in \<lparr>match_id = Some m,
             innings = Some i,
             season = first_valid (map (delivery.season \<circ> fst) g),
             venue = first_valid (map (delivery.venue \<circ> fst) g),
             city = first_valid (map (delivery.city \<circ> fst) g),
             batting_team = Some b,
             bowling_team = first_valid (map (delivery.bowling_team \<circ> fst) g),
             total_runs = Some runs,
             total_wickets = Some wickets,
             balls_faced = Some (int balls),
             overs_played = Fin overs,
             run_rate = rate,
             extras_total = Some extras,
             target = Some (if Some b = won then 1 else 0),
             runs_off_bat_total = Some bat,
             winner = won\<rparr>))"

text \<open>
  \<^verbatim>\<open>groupby([...]).agg({...}).reset_index()\<close> and the statements up to the target, on a
  frame that has its \<^verbatim>\<open>is_wicket\<close> column: one row per key, the keys in ascending order
  (\<^verbatim>\<open>sort=True\<close> is the default).
\<close>

definition aggregated :: "delivery list \<Rightarrow> int list \<Rightarrow> aggregated_row list" where
  "aggregated ds ws =
     (let tbl = zip ds ws;
          keys = sort (remdups (List.map_filter key_of ds))
      in map (\<lambda>k. aggregate_group k (group_rows tbl k)) keys)"

text \<open>
  The function. Its first statement assigns the column \<^verbatim>\<open>is_wicket\<close> of the frame it was
  given; the frame \<^verbatim>\<open>aggregated\<close> is local to the call and is not kept in the store; the
  selection \<^verbatim>\<open>final_features\<close> is a new frame, whose reference is returned. A reference
  to a frame without the raw columns is a \<^verbatim>\<open>KeyError\<close>.
\<close>

definition aggregate_features :: "store \<Rightarrow> nat \<Rightarrow> py_error + nat \<times> store" where
  "aggregate_features s df =
     (case lookup s df of
        Some (RawFrame f) \<Rightarrow>
          (let col = map (\<lambda>d. if wicket_kind d \<noteq> None then 1 else 0) (deliveries f);
               s1 = s[df := RawFrame (f\<lparr>is_wicket := Some col\<rparr>)];
               final_features = map innings_summary.truncate (aggregated (deliveries f) col)
           in Inr (alloc s1 (SummaryFrame final_features)))
      | _ \<Rightarrow> Inl (KeyError [''wicket_kind'']))"

section \<open>Cleaner: \<^verbatim>\<open>clean_data\<close>\<close>

text \<open>\<^verbatim>\<open>dropna(subset=['batting_team', 'bowling_team', 'venue', 'target'])\<close>.\<close>

definition dropna_subset :: "innings_summary list \<Rightarrow> innings_summary list" where
  "dropna_subset rs =
     filter (\<lambda>r. batting_team r \<noteq> None \<and> bowling_team r \<noteq> None \<and> venue r \<noteq> None \<and>
                 target r \<noteq> None) rs"

text \<open>\<^verbatim>\<open>df['city'].fillna('Unknown')\<close> and \<^verbatim>\<open>df['extras_total'].fillna(0)\<close>, row by row.\<close>

definition fill_city :: "innings_summary \<Rightarrow> innings_summary" where
  "fill_city r = (case city r of None \<Rightarrow> r\<lparr>city := Some ''Unknown''\<rparr> | Some c \<Rightarrow> r)"

definition fill_extras :: "innings_summary \<Rightarrow> innings_summary" where
  "fill_extras r = (case extras_total r of None \<Rightarrow> r\<lparr>extras_total := Some 0\<rparr> | Some e \<Rightarrow> r)"

text \<open>
  The function. \<^verbatim>\<open>dropna\<close>, the two selections by a mask, \<^verbatim>\<open>copy\<close> and
  \<^verbatim>\<open>drop_duplicates\<close> each make a new frame, to which \<^verbatim>\<open>df_clean\<close> is rebound; the two
  column assignments write into the frame \<^verbatim>\<open>df_clean\<close> refers to at that point. A
  reference to a frame without the summary columns is a \<^verbatim>\<open>KeyError\<close>.
\<close>

definition clean_data :: "store \<Rightarrow> nat \<Rightarrow> py_error + nat \<times> store" where
  "clean_data s df =
     (case lookup s df of
        Some (SummaryFrame rows0) \<Rightarrow>
          (let (c1, s1) = alloc s (SummaryFrame (dropna_subset rows0));
               (c2, s2) = alloc s1 (SummaryFrame
                            (filter (\<lambda>r. pf_less (Fin 0) (overs_played r)) (summary_rows s1 c1)));
               (c3, s3) = alloc s2 (SummaryFrame
                            (filter (\<lambda>r. pf_le (run_rate r) (Fin 50)) (summary_rows s2 c2)));
               (c4, s4) = alloc s3 (SummaryFrame (summary_rows s3 c3));
               s5 = s4[c4 := SummaryFrame (map fill_city (summary_rows s4 c4))];
               s6 = s5[c4 := SummaryFrame (map fill_extras (summary_rows s5 c4))];
               (c5, s7) = alloc s6 (SummaryFrame (drop_duplicates (summary_rows s6 c4)))
           in Inr (c5, s7))
      | _ \<Rightarrow> Inl (KeyError [''target'']))"

text \<open>
  The rows of the frame that \<^verbatim>\<open>clean_data\<close> returns, as a function of the rows of the
  frame it is given: the composition of its steps.
\<close>

definition cleaned_rows :: "innings_summary list \<Rightarrow> innings_summary list" where
  "cleaned_rows rows0 =
     drop_duplicates (map fill_extras (map fill_city
       (filter (\<lambda>r. pf_le (run_rate r) (Fin 50))
         (filter (\<lambda>r. pf_less (Fin 0) (overs_played r)) (dropna_subset rows0)))))"

section \<open>A sample table\<close>

text \<open>
  Four deliveries of two matches: match 1 was won by MI, its second innings has a single
  row with no \<^verbatim>\<open>ball\<close> cell; match 2 has no winner.
\<close>

definition sample_deliveries :: "delivery list" where
  "sample_deliveries =
     [\<lparr>delivery.match_id = Some 2, innings = Some 1, batting_team = Some ''RR'',
       bowling_team = Some ''KKR'', venue = Some ''Eden'', city = None,
       season = Some ''2009'', runs_batter = Some 6, runs_extras = Some 0,
       wicket_kind = None, ball = Some 1, match_won_by = None\<rparr>,
      \<lparr>delivery.match_id = Some 1, innings = Some 2, batting_team = Some ''CSK'',
       bowling_team = Some ''MI'', venue = Some ''Wankhede'', city = Some ''Mumbai'',
       season = Some ''2008'', runs_batter = Some 0, runs_extras = Some 1,
       wicket_kind = None, ball = None, match_won_by = Some ''MI''\<rparr>,
      \<lparr>delivery.match_id = Some 1, innings = Some 1, batting_team = Some ''MI'',
       bowling_team = Some ''CSK'', venue = Some ''Wankhede'', city = Some ''Mumbai'',
       season = Some ''2008'', runs_batter = Some 4, runs_extras = Some 1,
       wicket_kind = None, ball = Some 1, match_won_by = Some ''MI''\<rparr>,
      \<lparr>delivery.match_id = Some 1, innings = Some 1, batting_team = Some ''MI'',
       bowling_team = Some ''CSK'', venue = Some ''Wankhede'', city = Some ''Mumbai'',
       season = Some ''2008'', runs_batter = Some 0, runs_extras = Some 0,
       wicket_kind = Some ''bowled'', ball = Some 2, match_won_by = Some ''MI''\<rparr>]"

text \<open>The rows that \<^verbatim>\<open>aggregate_features\<close> computes from them.\<close>

definition sample_summary :: "innings_summary list" where
  "sample_summary =
     [\<lparr>innings_summary.match_id = Some 1, innings = Some 1, season = Some ''2008'',
       venue = Some ''Wankhede'', city = Some ''Mumbai'', batting_team = Some ''MI'',
       bowling_team = Some ''CSK'', total_runs = Some 5, total_wickets = Some 1,
       balls_faced = Some 2, overs_played = Fin (1 / 3), run_rate = Fin 15,
       extras_total = Some 1, target = Some 1\<rparr>,
      \<lparr>innings_summary.match_id = Some 1, innings = Some 2, season = Some ''2008'',
       venue = Some ''Wankhede'', city = Some ''Mumbai'', batting_team = Some ''CSK'',
       bowling_team = Some ''MI'', total_runs = Some 1, total_wickets = Some 0,
       balls_faced = Some 0, overs_played = Fin 0, run_rate = Fin 0,
       extras_total = Some 1, target = Some 0\<rparr>,
      \<lparr>innings_summary.match_id = Some 2, innings = Some 1, season = Some ''2009'',
       venue = Some ''Eden'', city = None, batting_team = Some ''RR'',
       bowling_team = Some ''KKR'', total_runs = Some 6, total_wickets = Some 0,
       balls_faced = Some 1, overs_played = Fin (1 / 6), run_rate = Fin 36,
       extras_total = Some 0, target = Some 0\<rparr>]"

text \<open>
  Six deliveries in which \<^verbatim>\<open>match_won_by\<close> is not constant within a group: the first
  innings of match 7 has a null cell, then KKR, then RR; the second has KKR, then RR;
  match 8 has no winner.
\<close>

definition sample_mixed :: "delivery list" where
  "sample_mixed =
     [\<lparr>delivery.match_id = Some 7, innings = Some 1, batting_team = Some ''KKR'',
       bowling_team = Some ''RR'', venue = Some ''Eden'', city = Some ''Kolkata'',
       season = Some ''2010'', runs_batter = Some 1, runs_extras = Some 0,
       wicket_kind = None, ball = Some 1, match_won_by = None\<rparr>,
      \<lparr>delivery.match_id = Some 7, innings = Some 1, batting_team = Some ''KKR'',
       bowling_team = Some ''RR'', venue = Some ''Eden'', city = Some ''Kolkata'',
       season = Some ''2010'', runs_batter = Some 4, runs_extras = Some 0,
       wicket_kind = None, ball = Some 2, match_won_by = Some ''KKR''\<rparr>,
      \<lparr>delivery.match_id = Some 7, innings = Some 1, batting_team = Some ''KKR'',
       bowling_team = Some ''RR'', venue = Some ''Eden'', city = Some ''Kolkata'',
       season = Some ''2010'', runs_batter = Some 0, runs_extras = Some 1,
       wicket_kind = None, ball = Some 3, match_won_by = Some ''RR''\<rparr>,
      \<lparr>delivery.match_id = Some 7, innings = Some 2, batting_team = Some ''RR'',
       bowling_team = Some ''KKR'', venue = Some ''Eden'', city = Some ''Kolkata'',
       season = Some ''2010'', runs_batter = Some 6, runs_extras = Some 0,
       wicket_kind = None, ball = Some 1, match_won_by = Some ''KKR''\<rparr>,
      \<lparr>delivery.match_id = Some 7, innings = Some 2, batting_team = Some ''RR'',
       bowling_team = Some ''KKR'', venue = Some ''Eden'', city = Some ''Kolkata'',
       season = Some ''2010'', runs_batter = Some 0, runs_extras = Some 0,
       wicket_kind = Some ''bowled'', ball = Some 2, match_won_by = Some ''RR''\<rparr>,
      \<lparr>delivery.match_id = Some 8, innings = Some 1, batting_team = Some ''MI'',
       bowling_team = Some ''CSK'', venue = Some ''Wankhede'', city = Some ''Mumbai'',
       season = Some ''2010'', runs_batter = Some 2, runs_extras = Some 0,
       wicket_kind = None, ball = Some 1, match_won_by = None\<rparr>]"

definition sample_mixed_summary :: "innings_summary list" where
  "sample_mixed_summary =
     [\<lparr>innings_summary.match_id = Some 7, innings = Some 1, season = Some ''2010'',
       venue = Some ''Eden'', city = Some ''Kolkata'', batting_team = Some ''KKR'',
       bowling_team = Some ''RR'', total_runs = Some 6, total_wickets = Some 0,
       balls_faced = Some 3, overs_played = Fin (1 / 2), run_rate = Fin 12,
       extras_total = Some 1, target = Some 1\<rparr>,
      \<lparr>innings_summary.match_id = Some 7, innings = Some 2, season = Some ''2010'',
       venue = Some ''Eden'', city = Some ''Kolkata'', batting_team = Some ''RR'',
       bowling_team = Some ''KKR'', total_runs = Some 6, total_wickets = Some 1,
       balls_faced = Some 2, overs_played = Fin (1 / 3), run_rate = Fin 18,
       extras_total = Some 0, target = Some 0\<rparr>,
      \<lparr>innings_summary.match_id = Some 8, innings = Some 1, season = Some ''2010'',
       venue = Some ''Wankhede'', city = Some ''Mumbai'', batting_team = Some ''MI'',
       bowling_team = Some ''CSK'', total_runs = Some 2, total_wickets = Some 0,
       balls_faced = Some 1, overs_played = Fin (1 / 6), run_rate = Fin 12,
       extras_total = Some 0, target = Some 0\<rparr>]"



text \<open>
  A file system with a model at one path, an estimator that answers 1, and a stand-in
  for \<^verbatim>\<open>float\<close> on strings that converts none (no numeric field of the sample
  requests is a string).
\<close>

definition sample_disk :: "unit disk" where
  "sample_disk q = (if q = ''model.pkl'' then Some (Artifact ()) else None)"

definition sample_infer :: "unit \<Rightarrow> dataframe \<Rightarrow> py_error + nat" where
  "sample_infer m df = Inr 1"

definition sample_parse :: "string \<Rightarrow> pfloat option" where
  "sample_parse s = None"

text \<open>
  Four request bodies: one without \<^verbatim>\<open>venue\<close> and \<^verbatim>\<open>city\<close>, one with eleven wickets,
  one with five and a half, one whose \<^verbatim>\<open>overs_played\<close> is NaN (the JSON parser of Python
  reads the literal \<^verbatim>\<open>NaN\<close>).
\<close>

definition sample_incomplete :: py_dict where
  "sample_incomplete =
     [(''batting_team'', JStr ''A''), (''bowling_team'', JStr ''B''),
      (''total_runs'', JInt 180), (''total_wickets'', JInt 5),
      (''overs_played'', JFloat (Fin 20)), (''extras_total'', JInt 12),
      (''run_rate'', JFloat (Fin 9))]"



definition sample_nan :: py_dict where
  "sample_nan =
     [(''batting_team'', JStr ''A''), (''bowling_team'', JStr ''B''),
      (''venue'', JStr ''V''), (''city'', JStr ''C''),
      (''total_runs'', JInt 180), (''total_wickets'', JInt 5),
      (''overs_played'', JFloat NaN), (''extras_total'', JInt 12),
      (''run_rate'', JFloat (Fin 9))]"

section \<open>Lemmas on lists\<close>

lemma set_drop_duplicates [simp]: "set (drop_duplicates xs) = set xs"
  by (induction xs) auto

lemma distinct_drop_duplicates: "distinct (drop_duplicates xs)"
  by (induction xs) auto

lemma drop_duplicates_distinct: "distinct xs \<Longrightarrow> drop_duplicates xs = xs"
proof (induction xs)
  case Nil
  then show ?case by simp
next
  case (Cons x xs)
  then have "filter (\<lambda>y. y \<noteq> x) xs = xs"
    by (auto intro: filter_True)
  with Cons show ?case by simp
qed


section \<open>Properties of the model store\<close>

lemma load_model_hit:
  "cached_model w = Some m \<Longrightarrow> model_path w = Some p \<Longrightarrow> load_model disk w p = (Inr m, w)"
  by (simp add: load_model_def)

lemma load_model_miss:
  "cached_model w = None \<or> model_path w \<noteq> Some p \<Longrightarrow> disk p = Some (Artifact m) \<Longrightarrow>
   load_model disk w p =
     (Inr m, \<lparr>cached_model = Some m, model_path = Some p,
              trace = trace w @ [PathExists p, JoblibLoad p]\<rparr>)"
  by (auto simp: load_model_def)

lemma load_model_failure_keeps_cache:
  "load_model disk w p = (Inl e, w') \<Longrightarrow>
   cached_model w' = cached_model w \<and> model_path w' = model_path w"
  by (auto simp: load_model_def Let_def split: if_splits option.splits stored.splits)

lemma load_models_hits:
  "cached_model w = Some m \<Longrightarrow> model_path w = Some p \<Longrightarrow>
   load_models disk w (replicate n p) = (replicate n (Inr m), w)"
  by (induction n) (simp_all add: load_model_hit)

text \<open>A call is its test of the cache followed, on a miss, by its load.\<close>

lemma load_model_parts:
  "load_model disk w p =
     (case load_model_check w p of
        Some m \<Rightarrow> (Inr m, w)
      | None \<Rightarrow> load_model_load disk w p)"
  by (simp add: load_model_def load_model_check_def load_model_load_def split: option.splits)

text \<open>A caller that gets both its turns with no other caller in between makes one call.\<close>

lemma interleave_alone:
  assumes "i < length cs" and "cs ! i = Called"
  shows "interleave disk p [i, i] (w, cs) =
           (case load_model disk w p of (r, w') \<Rightarrow> (w', cs[i := Returned r]))"
  using assms
  by (cases "load_model_check w p")
     (simp_all add: interleave_def step_caller_def load_model_parts split: prod.splits)

text \<open>
  C2, as the code has it. The loader takes no lock; what it guarantees is for calls that
  run one after the other. Of any number of such calls with one path, the first of which
  does not find this path cached, the first checks the path and loads the artifact and no
  later one touches storage: the artifact is deserialised once, and every call returns
  this one model.
\<close>

theorem load_models_sequential_single_load:
  assumes "cached_model w = None \<or> model_path w \<noteq> Some p"
    and "disk p = Some (Artifact m)"
  shows "load_models disk w (replicate (Suc n) p) =
           (replicate (Suc n) (Inr m),
            \<lparr>cached_model = Some m, model_path = Some p,
             trace = trace w @ [PathExists p, JoblibLoad p]\<rparr>)"
proof -
  let ?w = "\<lparr>cached_model = Some m, model_path = Some p,
             trace = trace w @ [PathExists p, JoblibLoad p]\<rparr>"
  have "load_model disk w p = (Inr m, ?w)"
    using assms by (rule load_model_miss)
  moreover have "load_models disk ?w (replicate n p) = (replicate n (Inr m), ?w)"
    by (rule load_models_hits) simp_all
  ultimately show ?thesis by simp
qed

theorem load_models_sequential_single_load_witness:
  "load_models sample_disk initial_world [''model.pkl'', ''model.pkl'', ''model.pkl''] =
   ([Inr (), Inr (), Inr ()],
    \<lparr>cached_model = Some (), model_path = Some ''model.pkl'',
     trace = [PathExists ''model.pkl'', JoblibLoad ''model.pkl'']\<rparr>)"
proof -
  have h1: "cached_model (initial_world :: unit world) = None \<or>
            model_path (initial_world :: unit world) \<noteq> Some ''model.pkl''"
    by (simp add: initial_world_def)
  have h2: "sample_disk ''model.pkl'' = Some (Artifact ())"
    by (simp add: sample_disk_def)
  from load_models_sequential_single_load
         [where w = initial_world and p = "''model.pkl''" and disk = sample_disk and m = "()"
            and n = 2, OF h1 h2]
  show ?thesis
    by (simp add: numeral_2_eq_2 initial_world_def)
qed

text \<open>
  C2 as stated fails. Two callers make their first access with the same path; each tests
  the cache before the other has assigned it, so each loads: the artifact is deserialised
  twice, not once.
\<close>

theorem interleaved_callers_load_twice:
  "interleave sample_disk ''model.pkl'' [0, 1, 0, 1] (initial_world, [Called, Called]) =
     (\<lparr>cached_model = Some (), model_path = Some ''model.pkl'',
       trace = [PathExists ''model.pkl'', JoblibLoad ''model.pkl'',
                PathExists ''model.pkl'', JoblibLoad ''model.pkl'']\<rparr>,
      [Returned (Inr ()), Returned (Inr ())]) \<and>
   count_list [PathExists ''model.pkl'', JoblibLoad ''model.pkl'',
               PathExists ''model.pkl'', JoblibLoad ''model.pkl'']
              (JoblibLoad ''model.pkl'') = 2"
  by (simp add: interleave_def step_caller_def load_model_check_def load_model_load_def
      sample_disk_def initial_world_def)

text \<open>With the turns taken one caller after the other, the same two callers load once.\<close>

lemma sequential_callers_load_once:
  "interleave sample_disk ''model.pkl'' [0, 0, 1, 1] (initial_world, [Called, Called]) =
     (\<lparr>cached_model = Some (), model_path = Some ''model.pkl'',
       trace = [PathExists ''model.pkl'', JoblibLoad ''model.pkl'']\<rparr>,
      [Returned (Inr ()), Returned (Inr ())])"
  by (simp add: interleave_def step_caller_def load_model_check_def load_model_load_def
      sample_disk_def initial_world_def)

text \<open>
  C5. A call whose path is not the cached one (the first call, or a call with another
  path than the cached one) checks the path, loads the artifact and leaves exactly this
  model and this path in the single slot, whatever the slot held; a call with the cached
  path returns the cached model and changes nothing, the trace included: storage is not
  touched. The state \<open>w\<close> is arbitrary, so this holds at every point of every sequence
  of calls.
\<close>

theorem load_model_single_slot_cache:
  "((cached_model w = None \<or> model_path w \<noteq> Some p) \<and> disk p = Some (Artifact m) \<longrightarrow>
      load_model disk w p =
        (Inr m, \<lparr>cached_model = Some m, model_path = Some p,
                 trace = trace w @ [PathExists p, JoblibLoad p]\<rparr>)) \<and>
   (cached_model w = Some m \<and> model_path w = Some p \<longrightarrow>
      load_model disk' w p = (Inr m, w))"
  by (simp add: load_model_hit load_model_miss)

theorem load_model_single_slot_cache_witness:
  "load_model (\<lambda>q. if q = ''a.pkl'' then Some (Artifact (1::nat)) else
                    if q = ''b.pkl'' then Some (Artifact 2) else None)
     initial_world ''a.pkl''
     = (Inr 1, \<lparr>cached_model = Some 1, model_path = Some ''a.pkl'',
                trace = [PathExists ''a.pkl'', JoblibLoad ''a.pkl'']\<rparr>) \<and>
   load_model (\<lambda>q. None)
     \<lparr>cached_model = Some (1::nat), model_path = Some ''a.pkl'',
      trace = [PathExists ''a.pkl'', JoblibLoad ''a.pkl'']\<rparr> ''a.pkl''
     = (Inr 1, \<lparr>cached_model = Some 1, model_path = Some ''a.pkl'',
                trace = [PathExists ''a.pkl'', JoblibLoad ''a.pkl'']\<rparr>) \<and>
   load_model (\<lambda>q. if q = ''a.pkl'' then Some (Artifact (1::nat)) else
                    if q = ''b.pkl'' then Some (Artifact 2) else None)
     \<lparr>cached_model = Some (1::nat), model_path = Some ''a.pkl'',
      trace = [PathExists ''a.pkl'', JoblibLoad ''a.pkl'']\<rparr> ''b.pkl''
     = (Inr 2, \<lparr>cached_model = Some 2, model_path = Some ''b.pkl'',
                trace = [PathExists ''a.pkl'', JoblibLoad ''a.pkl'',
                         PathExists ''b.pkl'', JoblibLoad ''b.pkl'']\<rparr>)"
  using
    load_model_single_slot_cache
      [of "initial_world" "''a.pkl''"
          "\<lambda>q. if q = ''a.pkl'' then Some (Artifact (1::nat)) else
                if q = ''b.pkl'' then Some (Artifact 2) else None" 1]
    load_model_single_slot_cache
      [of "\<lparr>cached_model = Some (1::nat), model_path = Some ''a.pkl'',
            trace = [PathExists ''a.pkl'', JoblibLoad ''a.pkl'']\<rparr>" "''a.pkl''"
          "\<lambda>q. None" 1 "\<lambda>q. None"]
    load_model_single_slot_cache
      [of "\<lparr>cached_model = Some (1::nat), model_path = Some ''a.pkl'',
            trace = [PathExists ''a.pkl'', JoblibLoad ''a.pkl'']\<rparr>" "''b.pkl''"
          "\<lambda>q. if q = ''a.pkl'' then Some (Artifact (1::nat)) else
                if q = ''b.pkl'' then Some (Artifact 2) else None" 2]
  by (simp add: initial_world_def)

text \<open>
  C10. A call that raises (the file is absent, or \<^verbatim>\<open>joblib.load\<close> raises) leaves both
  globals as they were, and a later call with the path that was cached before returns
  the model that was cached before, without touching storage.
\<close>

theorem load_model_failure_preserves_cache:
  "load_model disk w p = (Inl e, w') \<Longrightarrow>
   cached_model w' = cached_model w \<and> model_path w' = model_path w \<and>
   (\<forall>m q disk'. cached_model w = Some m \<and> model_path w = Some q \<longrightarrow>
      load_model disk' w' q = (Inr m, w'))"
  using load_model_failure_keeps_cache [of disk w p e w'] load_model_hit [of w']
  by simp

theorem load_model_failure_preserves_cache_witness:
  "load_model (\<lambda>q. if q = ''bad.pkl'' then Some Corrupt else None)
     \<lparr>cached_model = Some (1::nat), model_path = Some ''a.pkl'', trace = []\<rparr> ''bad.pkl''
     = (Inl UnpicklingError,
        \<lparr>cached_model = Some 1, model_path = Some ''a.pkl'',
         trace = [PathExists ''bad.pkl'', JoblibLoad ''bad.pkl'']\<rparr>) \<and>
   load_model (\<lambda>q. None)
     \<lparr>cached_model = Some (1::nat), model_path = Some ''a.pkl'',
      trace = [PathExists ''bad.pkl'', JoblibLoad ''bad.pkl'']\<rparr> ''a.pkl''
     = (Inr 1, \<lparr>cached_model = Some 1, model_path = Some ''a.pkl'',
                trace = [PathExists ''bad.pkl'', JoblibLoad ''bad.pkl'']\<rparr>)"
proof -
  let ?disk = "\<lambda>q. if q = ''bad.pkl'' then Some (Corrupt :: nat stored) else None"
  let ?w = "\<lparr>cached_model = Some (1::nat), model_path = Some ''a.pkl'', trace = []\<rparr>"
  let ?w' = "\<lparr>cached_model = Some (1::nat), model_path = Some ''a.pkl'',
              trace = [PathExists ''bad.pkl'', JoblibLoad ''bad.pkl'']\<rparr>"
  have fails: "load_model ?disk ?w ''bad.pkl'' = (Inl UnpicklingError, ?w')"
    by (simp add: load_model_def)
  from load_model_failure_preserves_cache [OF fails]
  have "load_model (\<lambda>q. None) ?w' ''a.pkl'' = (Inr 1, ?w')"
    by simp
  with fails show ?thesis by simp
qed

section \<open>Properties of the feature contract\<close>





section \<open>Properties of the request handler\<close>



lemma missing_fields_empty:
  "filter (\<lambda>field. field \<notin> set (map fst data)) required_fields = [] \<longleftrightarrow>
   set required_fields \<subseteq> fst ` set data"
  by (auto simp: filter_empty_conv)


text \<open>Unfolding the handler on a concrete request.\<close>

lemmas handler_eval =
  predict_def Let_def required_fields_def numeric_fields_def py_float_def exceeds_def
  same_teams_def py_eq_def predict_match_def load_model_def reorder_def getitem_def
  DataFrame_def feature_columns_def initial_world_def

text \<open>
  C6, as the handler has it. When a POST request carries a non-empty JSON object that
  lacks one or more of the nine required fields, the handler answers 400 with a message
  that lists every absent required field, in the order of \<^verbatim>\<open>required_fields\<close>, and
  leaves the state as it was: \<^verbatim>\<open>predict_match\<close> is not called.
\<close>

theorem predict_lists_every_missing_field:
  assumes "http_method req = POST" and "body req = Some data" and "data \<noteq> []"
    and "\<not> set required_fields \<subseteq> fst ` set data"
  shows "predict parse infer MODEL_PATH disk w req =
           (MissingFields
              (''Missing required fields: '' @
                 join '', '' (filter (\<lambda>field. field \<notin> fst ` set data) required_fields))
              required_fields, w)"
proof -
  from assms(4) have "filter (\<lambda>field. field \<notin> set (map fst data)) required_fields \<noteq> []"
    by (simp only: missing_fields_empty) simp
  with assms(1-3) show ?thesis
    by (simp add: predict_def Let_def)
qed

theorem predict_lists_every_missing_field_witness:
  "predict sample_parse sample_infer ''model.pkl'' sample_disk initial_world
     \<lparr>http_method = POST, body = Some sample_incomplete\<rparr>
   = (MissingFields ''Missing required fields: venue, city''
        [''batting_team'', ''bowling_team'', ''venue'', ''city'',
         ''total_runs'', ''total_wickets'', ''overs_played'',
         ''extras_total'', ''run_rate''],
      initial_world)"
proof -
  let ?req = "\<lparr>http_method = POST, body = Some sample_incomplete\<rparr>"
  have h1: "http_method ?req = POST" and h2: "body ?req = Some sample_incomplete"
    by simp_all
  have h3: "sample_incomplete \<noteq> []"
    by (simp add: sample_incomplete_def)
  have h4: "\<not> set required_fields \<subseteq> fst ` set sample_incomplete"
    by (simp add: required_fields_def sample_incomplete_def)
  from predict_lists_every_missing_field [OF h1 h2 h3 h4]
  show ?thesis
    by (simp add: required_fields_def sample_incomplete_def)
qed

text \<open>
  C6 as stated fails in \<^verbatim>\<open>predict_match\<close>: with the required fields \<^verbatim>\<open>venue\<close> and
  \<^verbatim>\<open>city\<close> both absent, its \<^verbatim>\<open>ValueError\<close> names \<^verbatim>\<open>venue\<close> alone.
\<close>

theorem predict_match_names_first_missing_field_only:
  "''venue'' \<in> set required_fields \<and> ''venue'' \<notin> fst ` set sample_incomplete \<and>
   ''city'' \<in> set required_fields \<and> ''city'' \<notin> fst ` set sample_incomplete \<and>
   predict_match sample_infer sample_disk initial_world sample_incomplete ''model.pkl''
   = (Inl (ValueError ''Missing required field: venue''),
      \<lparr>cached_model = Some (), model_path = Some ''model.pkl'',
       trace = [PathExists ''model.pkl'', JoblibLoad ''model.pkl'']\<rparr>)"
  by (simp add: handler_eval sample_incomplete_def sample_disk_def)




text \<open>
  A NaN is neither negative nor greater than a bound, so it passes the checks too.
\<close>

lemma predict_accepts_nan_overs:
  "status_code (fst (predict sample_parse sample_infer ''model.pkl'' sample_disk initial_world
     \<lparr>http_method = POST, body = Some sample_nan\<rparr>)) = 200"
  by (simp add: handler_eval sample_nan_def sample_disk_def sample_infer_def sample_parse_def)

section \<open>Properties of the aggregator\<close>

lemma lookup_alloc:
  "alloc s f = (a, s') \<Longrightarrow> a = length s \<and> lookup s' a = Some f \<and>
     (\<forall>r<length s. lookup s' r = lookup s r)"
  by (auto simp: alloc_def lookup_def nth_append)

lemma aggregate_features_result:
  "aggregate_features s df = Inr (a, s') \<longleftrightarrow>
     (\<exists>f. lookup s df = Some (RawFrame f) \<and> a = length s \<and>
          s' = s[df := RawFrame (f\<lparr>is_wicket := Some (map (\<lambda>d. if wicket_kind d \<noteq> None then 1 else 0) (deliveries f))\<rparr>)]
               @ [SummaryFrame (map innings_summary.truncate
                    (aggregated (deliveries f) (map (\<lambda>d. if wicket_kind d \<noteq> None then 1 else 0) (deliveries f))))])"
  by (auto simp: aggregate_features_def alloc_def Let_def split: option.splits frame.splits)

lemma aggregated_rows:
  "r \<in> set (aggregated ds ws) \<Longrightarrow>
     \<exists>k. k \<in> set (List.map_filter key_of ds) \<and> r = aggregate_group k (group_rows (zip ds ws) k)"
  by (auto simp: aggregated_def Let_def)

text \<open>
  The frame \<^verbatim>\<open>aggregated\<close> has one row for each key that occurs in the table, in
  ascending order of the keys, and in each row \<^verbatim>\<open>total_runs\<close> is the sum of the two
  run totals.
\<close>

lemma aggregated_total_runs:
  assumes "r \<in> set (aggregated ds ws)"
  shows "\<exists>b e. runs_off_bat_total r = Some b \<and> extras_total r = Some e \<and>
               total_runs r = Some (b + e)"
proof -
  from aggregated_rows [OF assms] obtain k g where "r = aggregate_group k g" by blast
  then show ?thesis by (cases k) (simp add: aggregate_group_def Let_def)
qed

lemma set_map_filter_Some:
  "set (List.map_filter f xs) = {y. \<exists>x\<in>set xs. f x = Some y}"
  by (induction xs) (auto simp: map_filter_simps split: option.splits)

lemma aggregated_one_row_per_key:
  "map (\<lambda>r. (match_id r, innings r, batting_team r)) (aggregated ds ws)
     = map (\<lambda>(m, i, b). (Some m, Some i, Some b)) (sort (remdups (List.map_filter key_of ds))) \<and>
   distinct (sort (remdups (List.map_filter key_of ds))) \<and>
   sorted (sort (remdups (List.map_filter key_of ds))) \<and>
   set (sort (remdups (List.map_filter key_of ds))) = {k. \<exists>d\<in>set ds. key_of d = Some k}"
proof (intro conjI)
  show "map (\<lambda>r. (match_id r, innings r, batting_team r)) (aggregated ds ws)
     = map (\<lambda>(m, i, b). (Some m, Some i, Some b)) (sort (remdups (List.map_filter key_of ds)))"
    by (simp add: aggregated_def Let_def aggregate_group_def split_def comp_def)
  show "set (sort (remdups (List.map_filter key_of ds))) = {k. \<exists>d\<in>set ds. key_of d = Some k}"
    by (simp add: set_map_filter_Some)
qed simp_all

lemma group_rows_fst:
  "map fst (group_rows (zip ds (map g ds)) k) = filter (\<lambda>d. key_of d = Some k) ds"
  by (induction ds) (auto simp: group_rows_def)

lemma truediv_cleaned:
  "0 \<le> b \<Longrightarrow> fillna_zero (replace_inf (truediv a b)) = Fin (if b = 0 then 0 else a / b)"
  by (auto simp: truediv_def)

lemma aggregate_group_run_rate:
  "\<exists>t n. total_runs (aggregate_group k g) = Some t \<and>
         overs_played (aggregate_group k g) = Fin (real n / 6) \<and>
         run_rate (aggregate_group k g) = Fin (if n = 0 then 0 else real_of_int t / (real n / 6))"
  by (cases k) (simp add: aggregate_group_def Let_def truediv_cleaned)

lemma aggregate_group_target:
  "match_id (aggregate_group (m, i, b) g) = Some m \<and>
   innings (aggregate_group (m, i, b) g) = Some i \<and>
   batting_team (aggregate_group (m, i, b) g) = Some b \<and>
   winner (aggregate_group (m, i, b) g) = first_valid (map (match_won_by \<circ> fst) g) \<and>
   target (aggregate_group (m, i, b) g) =
     Some (if batting_team (aggregate_group (m, i, b) g) = winner (aggregate_group (m, i, b) g) then 1 else 0)"
  by (simp add: aggregate_group_def Let_def)

lemma first_valid_all_None: "(\<forall>x\<in>set xs. x = None) \<Longrightarrow> first_valid xs = None"
  by (induction xs) auto

lemma truncate_fields:
  "total_runs (innings_summary.truncate r) = total_runs r"
  "overs_played (innings_summary.truncate r) = overs_played r"
  "run_rate (innings_summary.truncate r) = run_rate r"
  "match_id (innings_summary.truncate r) = match_id r"
  "innings (innings_summary.truncate r) = innings r"
  "batting_team (innings_summary.truncate r) = batting_team r"
  "target (innings_summary.truncate r) = target r"
  by (simp_all add: innings_summary.truncate_def)

lemma final_features_rows:
  assumes "aggregate_features s df = Inr (a, s')"
  obtains f where "lookup s df = Some (RawFrame f)"
    and "lookup s' a = Some (SummaryFrame (map innings_summary.truncate
           (aggregated (deliveries f) (map (\<lambda>d. if wicket_kind d \<noteq> None then 1 else 0) (deliveries f)))))"
proof -
  from assms obtain f where f: "lookup s df = Some (RawFrame f)" and a: "a = length s"
    and s': "s' = s[df := RawFrame (f\<lparr>is_wicket := Some (map (\<lambda>d. if wicket_kind d \<noteq> None then 1 else 0) (deliveries f))\<rparr>)]
               @ [SummaryFrame (map innings_summary.truncate
                    (aggregated (deliveries f) (map (\<lambda>d. if wicket_kind d \<noteq> None then 1 else 0) (deliveries f))))]"
    unfolding aggregate_features_result by blast
  from a s' have "lookup s' a = Some (SummaryFrame (map innings_summary.truncate
           (aggregated (deliveries f) (map (\<lambda>d. if wicket_kind d \<noteq> None then 1 else 0) (deliveries f)))))"
    by (simp add: lookup_def nth_append)
  with f that show thesis by blast
qed

text \<open>Unfolding the aggregator on a concrete table.\<close>

lemmas pipeline_eval =
  aggregate_features_def lookup_def alloc_def aggregated_def List.map_filter_def key_of_def
  group_rows_def aggregate_group_def sum_valid_def count_valid_def truediv_def Let_def
  innings_summary.truncate_def

lemma aggregate_features_sample:
  "aggregate_features [RawFrame \<lparr>deliveries = sample_deliveries, is_wicket = None\<rparr>] 0 =
     Inr (1, [RawFrame \<lparr>deliveries = sample_deliveries, is_wicket = Some [0, 0, 0, 1]\<rparr>,
              SummaryFrame sample_summary])"
  by (simp add: pipeline_eval sample_deliveries_def sample_summary_def)

lemma aggregate_features_sample_mixed:
  "aggregate_features [RawFrame \<lparr>deliveries = sample_mixed, is_wicket = None\<rparr>] 0 =
     Inr (1, [RawFrame \<lparr>deliveries = sample_mixed, is_wicket = Some [0, 0, 0, 0, 1, 0]\<rparr>,
              SummaryFrame sample_mixed_summary])"
  by (simp add: pipeline_eval sample_mixed_def sample_mixed_summary_def)

text \<open>
  The aggregation \<^verbatim>\<open>'first'\<close> without reference to its definition: it yields \<open>b\<close> exactly
  when the cells are some null cells, then \<open>b\<close>, then anything.
\<close>

lemma first_valid_replicate: "first_valid (replicate n None @ Some b # post) = Some b"
  by (induction n) simp_all

lemma first_valid_SomeD:
  "first_valid xs = Some b \<Longrightarrow> \<exists>n post. xs = replicate n None @ Some b # post"
proof (induction xs)
  case Nil
  then show ?case by simp
next
  case (Cons a xs)
  show ?case
  proof (cases a)
    case None
    with Cons obtain n post where "xs = replicate n None @ Some b # post" by auto
    with None have "a # xs = replicate (Suc n) None @ Some b # post" by simp
    then show ?thesis by (intro exI)
  next
    case (Some c)
    with Cons.prems have "c = b" by simp
    with Some have "a # xs = replicate 0 None @ Some b # xs" by simp
    then show ?thesis by (intro exI)
  qed
qed

lemma first_valid_Some_iff:
  "first_valid xs = Some b \<longleftrightarrow> (\<exists>n post. xs = replicate n None @ Some b # post)"
  using first_valid_SomeD first_valid_replicate by metis

lemma key_of_Some_iff:
  "key_of d = Some (m, i, b) \<longleftrightarrow>
     delivery.match_id d = Some m \<and> delivery.innings d = Some i \<and>
     delivery.batting_team d = Some b"
  by (auto simp: key_of_def split: option.splits)

text \<open>
  C3. In every row of the frame that \<^verbatim>\<open>aggregate_features\<close> returns, \<^verbatim>\<open>overs_played\<close>
  is a finite number that is not negative; \<^verbatim>\<open>run_rate\<close> is \<^verbatim>\<open>total_runs / overs_played\<close>
  when \<^verbatim>\<open>overs_played\<close> is positive and 0 when it is 0 (an innings none of whose rows has
  a \<^verbatim>\<open>ball\<close> cell); it is never NaN or an infinity.
\<close>

theorem aggregate_features_run_rate:
  assumes "aggregate_features s df = Inr (a, s')"
  shows "\<exists>rows. lookup s' a = Some (SummaryFrame rows) \<and>
     (\<forall>r\<in>set rows. \<exists>t ov. total_runs r = Some t \<and> overs_played r = Fin ov \<and> 0 \<le> ov \<and>
         (0 < ov \<longrightarrow> run_rate r = Fin (real_of_int t / ov)) \<and>
         (ov = 0 \<longrightarrow> run_rate r = Fin 0) \<and>
         run_rate r \<noteq> NaN \<and> run_rate r \<noteq> PInf \<and> run_rate r \<noteq> NInf)"
proof -
  from assms obtain f where "lookup s df = Some (RawFrame f)" and
    rows: "lookup s' a = Some (SummaryFrame (map innings_summary.truncate
           (aggregated (deliveries f) (map (\<lambda>d. if wicket_kind d \<noteq> None then 1 else 0) (deliveries f)))))"
    by (rule final_features_rows)
  let ?agg = "aggregated (deliveries f) (map (\<lambda>d. if wicket_kind d \<noteq> None then 1 else 0) (deliveries f))"
  have "\<exists>t ov. total_runs r = Some t \<and> overs_played r = Fin ov \<and> 0 \<le> ov \<and>
         (0 < ov \<longrightarrow> run_rate r = Fin (real_of_int t / ov)) \<and>
         (ov = 0 \<longrightarrow> run_rate r = Fin 0) \<and>
         run_rate r \<noteq> NaN \<and> run_rate r \<noteq> PInf \<and> run_rate r \<noteq> NInf"
    if "r \<in> set (map innings_summary.truncate ?agg)" for r
  proof -
    from that obtain ar where ar: "ar \<in> set ?agg" and r: "r = innings_summary.truncate ar" by auto
    from aggregated_rows [OF ar] obtain k g where "ar = aggregate_group k g" by blast
    with aggregate_group_run_rate [of k g] obtain t n where
      "total_runs ar = Some t" "overs_played ar = Fin (real n / 6)"
      "run_rate ar = Fin (if n = 0 then 0 else real_of_int t / (real n / 6))"
      by auto
    with r have "total_runs r = Some t \<and> overs_played r = Fin (real n / 6) \<and> 0 \<le> real n / 6 \<and>
         (0 < real n / 6 \<longrightarrow> run_rate r = Fin (real_of_int t / (real n / 6))) \<and>
         (real n / 6 = 0 \<longrightarrow> run_rate r = Fin 0) \<and>
         run_rate r \<noteq> NaN \<and> run_rate r \<noteq> PInf \<and> run_rate r \<noteq> NInf"
      by (simp add: truncate_fields)
    then show ?thesis by blast
  qed
  with rows show ?thesis by blast
qed

theorem aggregate_features_run_rate_witness:
  "aggregate_features [RawFrame \<lparr>deliveries = sample_deliveries, is_wicket = None\<rparr>] 0 =
     Inr (1, [RawFrame \<lparr>deliveries = sample_deliveries, is_wicket = Some [0, 0, 0, 1]\<rparr>,
              SummaryFrame sample_summary]) \<and>
   map overs_played sample_summary = [Fin (1 / 3), Fin 0, Fin (1 / 6)] \<and>
   map run_rate sample_summary = [Fin 15, Fin 0, Fin 36] \<and>
   (\<exists>rows. lookup [RawFrame \<lparr>deliveries = sample_deliveries, is_wicket = Some [0, 0, 0, 1]\<rparr>,
                    SummaryFrame sample_summary] 1 = Some (SummaryFrame rows) \<and>
     (\<forall>r\<in>set rows. \<exists>t ov. total_runs r = Some t \<and> overs_played r = Fin ov \<and> 0 \<le> ov \<and>
         (0 < ov \<longrightarrow> run_rate r = Fin (real_of_int t / ov)) \<and>
         (ov = 0 \<longrightarrow> run_rate r = Fin 0) \<and>
         run_rate r \<noteq> NaN \<and> run_rate r \<noteq> PInf \<and> run_rate r \<noteq> NInf))"
proof (intro conjI)
  show "\<exists>rows. lookup [RawFrame \<lparr>deliveries = sample_deliveries, is_wicket = Some [0, 0, 0, 1]\<rparr>,
                    SummaryFrame sample_summary] 1 = Some (SummaryFrame rows) \<and>
     (\<forall>r\<in>set rows. \<exists>t ov. total_runs r = Some t \<and> overs_played r = Fin ov \<and> 0 \<le> ov \<and>
         (0 < ov \<longrightarrow> run_rate r = Fin (real_of_int t / ov)) \<and>
         (ov = 0 \<longrightarrow> run_rate r = Fin 0) \<and>
         run_rate r \<noteq> NaN \<and> run_rate r \<noteq> PInf \<and> run_rate r \<noteq> NInf)"
    by (rule aggregate_features_run_rate [OF aggregate_features_sample])
qed (simp_all add: aggregate_features_sample sample_summary_def)

text \<open>
  C4. Every row of the frame that \<^verbatim>\<open>aggregate_features\<close> returns stands for a group of
  the table, the deliveries that have its three key columns (none of which is null), and
  \<^verbatim>\<open>target\<close> is 1 or 0. It is 1 exactly when \<^verbatim>\<open>batting_team\<close> is the winner, the first
  \<^verbatim>\<open>match_won_by\<close> value of the group in table order: the cells of the group are some
  null cells (the aggregation \<^verbatim>\<open>'first'\<close> passes over them), then the batting team,
  then anything. When every row of the match has a null \<^verbatim>\<open>match_won_by\<close>, the target
  is 0.
\<close>

theorem aggregate_features_target:
  assumes "aggregate_features s df = Inr (a, s')"
  shows "\<exists>f rows. lookup s df = Some (RawFrame f) \<and> lookup s' a = Some (SummaryFrame rows) \<and>
     (\<forall>r\<in>set rows. \<exists>m i b. match_id r = Some m \<and> innings r = Some i \<and> batting_team r = Some b \<and>
         (\<exists>d\<in>set (deliveries f). delivery.match_id d = Some m \<and> delivery.innings d = Some i \<and>
                delivery.batting_team d = Some b) \<and>
         (target r = Some 1 \<or> target r = Some 0) \<and>
         (target r = Some 1 \<longleftrightarrow>
            (\<exists>n post. map match_won_by
                        (filter (\<lambda>d. delivery.match_id d = Some m \<and> delivery.innings d = Some i \<and>
                                      delivery.batting_team d = Some b) (deliveries f))
                      = replicate n None @ Some b # post)) \<and>
         ((\<forall>d\<in>set (deliveries f). delivery.match_id d = Some m \<longrightarrow> match_won_by d = None) \<longrightarrow>
            target r = Some 0))"
proof -
  from assms obtain f where f: "lookup s df = Some (RawFrame f)" and
    rows: "lookup s' a = Some (SummaryFrame (map innings_summary.truncate
           (aggregated (deliveries f) (map (\<lambda>d. if wicket_kind d \<noteq> None then 1 else 0) (deliveries f)))))"
    by (rule final_features_rows)
  let ?ws = "map (\<lambda>d. if wicket_kind d \<noteq> None then 1 else (0::int)) (deliveries f)"
  let ?agg = "aggregated (deliveries f) ?ws"
  have "\<exists>m i b. match_id r = Some m \<and> innings r = Some i \<and> batting_team r = Some b \<and>
         (\<exists>d\<in>set (deliveries f). delivery.match_id d = Some m \<and> delivery.innings d = Some i \<and>
                delivery.batting_team d = Some b) \<and>
         (target r = Some 1 \<or> target r = Some 0) \<and>
         (target r = Some 1 \<longleftrightarrow>
            (\<exists>n post. map match_won_by
                        (filter (\<lambda>d. delivery.match_id d = Some m \<and> delivery.innings d = Some i \<and>
                                      delivery.batting_team d = Some b) (deliveries f))
                      = replicate n None @ Some b # post)) \<and>
         ((\<forall>d\<in>set (deliveries f). delivery.match_id d = Some m \<longrightarrow> match_won_by d = None) \<longrightarrow>
            target r = Some 0)"
    if "r \<in> set (map innings_summary.truncate ?agg)" for r
  proof -
    from that obtain ar where ar: "ar \<in> set ?agg" and r: "r = innings_summary.truncate ar" by auto
    from aggregated_rows [OF ar] obtain k where
      kin: "k \<in> set (List.map_filter key_of (deliveries f))" and
      k: "ar = aggregate_group k (group_rows (zip (deliveries f) ?ws) k)" by blast
    obtain m i b where mib: "k = (m, i, b)" by (cases k)
    let ?g = "filter (\<lambda>d. delivery.match_id d = Some m \<and> delivery.innings d = Some i \<and>
                          delivery.batting_team d = Some b) (deliveries f)"
    have g: "filter (\<lambda>d. key_of d = Some k) (deliveries f) = ?g"
      by (simp add: mib key_of_Some_iff)
    have won: "map (match_won_by \<circ> fst) (group_rows (zip (deliveries f) ?ws) k) = map match_won_by ?g"
      using group_rows_fst [of "deliveries f" _ k] g
      by (simp flip: map_map)
    from aggregate_group_target [of m i b "group_rows (zip (deliveries f) ?ws) k"] k mib r won
    have 1: "match_id r = Some m" "innings r = Some i" "batting_team r = Some b"
      "target r = Some (if Some b = first_valid (map match_won_by ?g) then 1 else 0)"
      by (simp_all add: truncate_fields)
    from kin obtain d where "d \<in> set (deliveries f)" "key_of d = Some k"
      by (auto simp: set_map_filter_Some)
    then have 2: "\<exists>d\<in>set (deliveries f). delivery.match_id d = Some m \<and>
        delivery.innings d = Some i \<and> delivery.batting_team d = Some b"
      by (auto simp: mib key_of_Some_iff)
    from 1(4) have 3: "target r = Some 1 \<or> target r = Some 0"
      by simp
    from 1(4) have "target r = Some 1 \<longleftrightarrow> first_valid (map match_won_by ?g) = Some b"
      by auto
    then have 4: "target r = Some 1 \<longleftrightarrow>
        (\<exists>n post. map match_won_by ?g = replicate n None @ Some b # post)"
      by (simp only: first_valid_Some_iff)
    have 5: "target r = Some 0"
      if none: "\<forall>d\<in>set (deliveries f). delivery.match_id d = Some m \<longrightarrow> match_won_by d = None"
    proof -
      have "\<forall>x\<in>set (map match_won_by ?g). x = None"
        using none by auto
      then have "first_valid (map match_won_by ?g) = None"
        by (rule first_valid_all_None)
      with 1(4) show ?thesis by simp
    qed
    show ?thesis
    proof (intro exI conjI)
      show "match_id r = Some m" "innings r = Some i" "batting_team r = Some b"
        by (rule 1)+
      show "\<exists>d\<in>set (deliveries f). delivery.match_id d = Some m \<and>
          delivery.innings d = Some i \<and> delivery.batting_team d = Some b"
        by (rule 2)
      show "target r = Some 1 \<or> target r = Some 0"
        by (rule 3)
      show "target r = Some 1 \<longleftrightarrow>
          (\<exists>n post. map match_won_by ?g = replicate n None @ Some b # post)"
        by (rule 4)
      show "(\<forall>d\<in>set (deliveries f). delivery.match_id d = Some m \<longrightarrow> match_won_by d = None) \<longrightarrow>
          target r = Some 0"
        using 5 by (rule impI)
    qed
  qed
  then have all: "\<forall>r\<in>set (map innings_summary.truncate ?agg).
       \<exists>m i b. match_id r = Some m \<and> innings r = Some i \<and> batting_team r = Some b \<and>
         (\<exists>d\<in>set (deliveries f). delivery.match_id d = Some m \<and> delivery.innings d = Some i \<and>
                delivery.batting_team d = Some b) \<and>
         (target r = Some 1 \<or> target r = Some 0) \<and>
         (target r = Some 1 \<longleftrightarrow>
            (\<exists>n post. map match_won_by
                        (filter (\<lambda>d. delivery.match_id d = Some m \<and> delivery.innings d = Some i \<and>
                                      delivery.batting_team d = Some b) (deliveries f))
                      = replicate n None @ Some b # post)) \<and>
         ((\<forall>d\<in>set (deliveries f). delivery.match_id d = Some m \<longrightarrow> match_won_by d = None) \<longrightarrow>
            target r = Some 0)"
    by (rule ballI)
  show ?thesis
    by (rule exI [of _ f], rule exI, intro conjI, rule f, rule rows, rule all)
qed

theorem aggregate_features_target_witness:
  "aggregate_features [RawFrame \<lparr>deliveries = sample_mixed, is_wicket = None\<rparr>] 0 =
     Inr (1, [RawFrame \<lparr>deliveries = sample_mixed, is_wicket = Some [0, 0, 0, 0, 1, 0]\<rparr>,
              SummaryFrame sample_mixed_summary]) \<and>
   map match_won_by sample_mixed =
     [None, Some ''KKR'', Some ''RR'', Some ''KKR'', Some ''RR'', None] \<and>
   map batting_team sample_mixed_summary = [Some ''KKR'', Some ''RR'', Some ''MI''] \<and>
   map target sample_mixed_summary = [Some 1, Some 0, Some 0] \<and>
   (\<exists>f rows. lookup [RawFrame \<lparr>deliveries = sample_mixed, is_wicket = None\<rparr>] 0 = Some (RawFrame f) \<and>
     lookup [RawFrame \<lparr>deliveries = sample_mixed, is_wicket = Some [0, 0, 0, 0, 1, 0]\<rparr>,
             SummaryFrame sample_mixed_summary] 1 = Some (SummaryFrame rows) \<and>
     (\<forall>r\<in>set rows. \<exists>m i b. match_id r = Some m \<and> innings r = Some i \<and> batting_team r = Some b \<and>
         (\<exists>d\<in>set (deliveries f). delivery.match_id d = Some m \<and> delivery.innings d = Some i \<and>
                delivery.batting_team d = Some b) \<and>
         (target r = Some 1 \<or> target r = Some 0) \<and>
         (target r = Some 1 \<longleftrightarrow>
            (\<exists>n post. map match_won_by
                        (filter (\<lambda>d. delivery.match_id d = Some m \<and> delivery.innings d = Some i \<and>
                                      delivery.batting_team d = Some b) (deliveries f))
                      = replicate n None @ Some b # post)) \<and>
         ((\<forall>d\<in>set (deliveries f). delivery.match_id d = Some m \<longrightarrow> match_won_by d = None) \<longrightarrow>
            target r = Some 0)))"
proof (intro conjI)
  show "\<exists>f rows. lookup [RawFrame \<lparr>deliveries = sample_mixed, is_wicket = None\<rparr>] 0 = Some (RawFrame f) \<and>
     lookup [RawFrame \<lparr>deliveries = sample_mixed, is_wicket = Some [0, 0, 0, 0, 1, 0]\<rparr>,
             SummaryFrame sample_mixed_summary] 1 = Some (SummaryFrame rows) \<and>
     (\<forall>r\<in>set rows. \<exists>m i b. match_id r = Some m \<and> innings r = Some i \<and> batting_team r = Some b \<and>
         (\<exists>d\<in>set (deliveries f). delivery.match_id d = Some m \<and> delivery.innings d = Some i \<and>
                delivery.batting_team d = Some b) \<and>
         (target r = Some 1 \<or> target r = Some 0) \<and>
         (target r = Some 1 \<longleftrightarrow>
            (\<exists>n post. map match_won_by
                        (filter (\<lambda>d. delivery.match_id d = Some m \<and> delivery.innings d = Some i \<and>
                                      delivery.batting_team d = Some b) (deliveries f))
                      = replicate n None @ Some b # post)) \<and>
         ((\<forall>d\<in>set (deliveries f). delivery.match_id d = Some m \<longrightarrow> match_won_by d = None) \<longrightarrow>
            target r = Some 0))"
    by (rule aggregate_features_target [OF aggregate_features_sample_mixed])
next
  show "aggregate_features [RawFrame \<lparr>deliveries = sample_mixed, is_wicket = None\<rparr>] 0 =
     Inr (1, [RawFrame \<lparr>deliveries = sample_mixed, is_wicket = Some [0, 0, 0, 0, 1, 0]\<rparr>,
              SummaryFrame sample_mixed_summary])"
    by (rule aggregate_features_sample_mixed)
qed (simp_all add: sample_mixed_def sample_mixed_summary_def)

section \<open>Properties of the cleaner\<close>

lemma clean_data_result:
  assumes "lookup s df = Some (SummaryFrame rows0)"
  shows "clean_data s df =
     Inr (length s + 4,
          s @ [SummaryFrame (dropna_subset rows0),
               SummaryFrame (filter (\<lambda>r. pf_less (Fin 0) (overs_played r)) (dropna_subset rows0)),
               SummaryFrame (filter (\<lambda>r. pf_le (run_rate r) (Fin 50))
                 (filter (\<lambda>r. pf_less (Fin 0) (overs_played r)) (dropna_subset rows0))),
               SummaryFrame (map fill_extras (map fill_city (filter (\<lambda>r. pf_le (run_rate r) (Fin 50))
                 (filter (\<lambda>r. pf_less (Fin 0) (overs_played r)) (dropna_subset rows0))))),
               SummaryFrame (drop_duplicates (map fill_extras (map fill_city (filter (\<lambda>r. pf_le (run_rate r) (Fin 50))
                 (filter (\<lambda>r. pf_less (Fin 0) (overs_played r)) (dropna_subset rows0))))))])"
  using assms
  by (simp add: clean_data_def alloc_def lookup_def summary_rows_def nth_append list_update_append Let_def)

lemma clean_data_Inr:
  "clean_data s df = Inr (a, s') \<Longrightarrow> \<exists>rows0. lookup s df = Some (SummaryFrame rows0)"
  by (auto simp: clean_data_def split: option.splits frame.splits)

lemma clean_data_returns:
  assumes "lookup s df = Some (SummaryFrame rows0)"
  shows "\<exists>a s'. clean_data s df = Inr (a, s') \<and>
           lookup s' a = Some (SummaryFrame (cleaned_rows rows0)) \<and>
           (\<forall>r<length s. lookup s' r = lookup s r)"
  unfolding clean_data_result [OF assms]
  by (simp add: lookup_def nth_append cleaned_rows_def)

lemma cleaned_rows_stable:
  assumes "r \<in> set (cleaned_rows rows0)"
  shows "batting_team r \<noteq> None \<and> bowling_team r \<noteq> None \<and> venue r \<noteq> None \<and> target r \<noteq> None \<and>
         pf_less (Fin 0) (overs_played r) \<and> pf_le (run_rate r) (Fin 50) \<and>
         fill_city r = r \<and> fill_extras r = r"
  using assms
  by (auto simp: cleaned_rows_def dropna_subset_def fill_city_def fill_extras_def
      split: option.splits)

lemma cleaned_rows_idempotent: "cleaned_rows (cleaned_rows rows0) = cleaned_rows rows0"
proof -
  let ?ys = "cleaned_rows rows0"
  note st = cleaned_rows_stable [of _ rows0]
  have 1: "dropna_subset ?ys = ?ys"
    unfolding dropna_subset_def using st by (intro filter_True) blast
  have 2: "filter (\<lambda>r. pf_less (Fin 0) (overs_played r)) ?ys = ?ys"
    using st by (intro filter_True) blast
  have 3: "filter (\<lambda>r. pf_le (run_rate r) (Fin 50)) ?ys = ?ys"
    using st by (intro filter_True) blast
  have 4: "map fill_city ?ys = ?ys"
    using st by (intro map_idI) blast
  have 5: "map fill_extras ?ys = ?ys"
    using st by (intro map_idI) blast
  have 6: "drop_duplicates ?ys = ?ys"
    by (rule drop_duplicates_distinct) (simp add: cleaned_rows_def distinct_drop_duplicates)
  have "cleaned_rows ?ys =
     drop_duplicates (map fill_extras (map fill_city
       (filter (\<lambda>r. pf_le (run_rate r) (Fin 50))
         (filter (\<lambda>r. pf_less (Fin 0) (overs_played r)) (dropna_subset ?ys)))))"
    by (rule cleaned_rows_def)
  also have "\<dots> = ?ys"
    by (simp only: 1 2 3 4 5 6)
  finally show ?thesis .
qed

lemma cleaned_rows_sample:
  "cleaned_rows sample_summary =
     [\<lparr>innings_summary.match_id = Some 1, innings = Some 1, season = Some ''2008'',
       venue = Some ''Wankhede'', city = Some ''Mumbai'', batting_team = Some ''MI'',
       bowling_team = Some ''CSK'', total_runs = Some 5, total_wickets = Some 1,
       balls_faced = Some 2, overs_played = Fin (1 / 3), run_rate = Fin 15,
       extras_total = Some 1, target = Some 1\<rparr>,
      \<lparr>innings_summary.match_id = Some 2, innings = Some 1, season = Some ''2009'',
       venue = Some ''Eden'', city = Some ''Unknown'', batting_team = Some ''RR'',
       bowling_team = Some ''KKR'', total_runs = Some 6, total_wickets = Some 0,
       balls_faced = Some 1, overs_played = Fin (1 / 6), run_rate = Fin 36,
       extras_total = Some 0, target = Some 0\<rparr>]"
  by (simp add: cleaned_rows_def sample_summary_def dropna_subset_def fill_city_def fill_extras_def)

text \<open>
  C8. \<^verbatim>\<open>clean_data\<close> is idempotent: applied to the frame that a call of \<^verbatim>\<open>clean_data\<close>
  returned, it returns, and the frame it returns has the same rows with the same values:
  the second pass removes no row and changes no cell.
\<close>

theorem clean_data_idempotent:
  assumes "clean_data s df = Inr (a, s1)"
  shows "\<exists>b s2. clean_data s1 a = Inr (b, s2) \<and> lookup s2 b = lookup s1 a"
proof -
  from clean_data_Inr [OF assms] obtain rows0 where
    rows0: "lookup s df = Some (SummaryFrame rows0)" by blast
  from clean_data_returns [OF rows0] assms
  have a: "lookup s1 a = Some (SummaryFrame (cleaned_rows rows0))" by auto
  from clean_data_returns [OF a] obtain b s2 where
    "clean_data s1 a = Inr (b, s2)"
    "lookup s2 b = Some (SummaryFrame (cleaned_rows (cleaned_rows rows0)))" by blast
  with a show ?thesis by (simp add: cleaned_rows_idempotent)
qed

theorem clean_data_idempotent_witness:
  "\<exists>a s1. clean_data [SummaryFrame sample_summary] 0 = Inr (a, s1) \<and>
     lookup s1 a = Some (SummaryFrame (cleaned_rows sample_summary)) \<and>
     length (cleaned_rows sample_summary) = 2 \<and>
     (\<exists>b s2. clean_data s1 a = Inr (b, s2) \<and> lookup s2 b = lookup s1 a)"
proof -
  have "lookup [SummaryFrame sample_summary] 0 = Some (SummaryFrame sample_summary)"
    by (simp add: lookup_def)
  from clean_data_returns [OF this] obtain a s1 where
    c: "clean_data [SummaryFrame sample_summary] 0 = Inr (a, s1)" and
    l: "lookup s1 a = Some (SummaryFrame (cleaned_rows sample_summary))"
    by blast
  have n: "length (cleaned_rows sample_summary) = 2"
    by (simp add: cleaned_rows_sample)
  from c l n clean_data_idempotent [OF c] show ?thesis by blast
qed

text \<open>
  C9, as the code has it. \<^verbatim>\<open>clean_data\<close> leaves every frame that existed before the call,
  its argument among them, as it was. \<^verbatim>\<open>aggregate_features\<close> leaves every other frame as
  it was, and leaves the rows of its argument as they were, but sets the column
  \<^verbatim>\<open>is_wicket\<close> of its argument (1 where \<^verbatim>\<open>wicket_kind\<close> is not null, 0 elsewhere).
\<close>

theorem pipeline_frame_effects:
  "(clean_data s df = Inr (a, s') \<longrightarrow> (\<forall>r<length s. lookup s' r = lookup s r)) \<and>
   (aggregate_features s df = Inr (a, s') \<longrightarrow>
      (\<exists>f. lookup s df = Some (RawFrame f) \<and>
           lookup s' df = Some (RawFrame (f\<lparr>is_wicket :=
             Some (map (\<lambda>d. if wicket_kind d \<noteq> None then 1 else 0) (deliveries f))\<rparr>))) \<and>
      (\<forall>r<length s. r \<noteq> df \<longrightarrow> lookup s' r = lookup s r))"
proof (intro conjI impI)
  assume c: "clean_data s df = Inr (a, s')"
  from clean_data_Inr [OF c] obtain rows0 where "lookup s df = Some (SummaryFrame rows0)" by blast
  from clean_data_returns [OF this] c show "\<forall>r<length s. lookup s' r = lookup s r" by auto
next
  assume g: "aggregate_features s df = Inr (a, s')"
  then obtain f where f: "lookup s df = Some (RawFrame f)" and
    s': "s' = s[df := RawFrame (f\<lparr>is_wicket := Some (map (\<lambda>d. if wicket_kind d \<noteq> None then 1 else 0) (deliveries f))\<rparr>)]
               @ [SummaryFrame (map innings_summary.truncate
                    (aggregated (deliveries f) (map (\<lambda>d. if wicket_kind d \<noteq> None then 1 else 0) (deliveries f))))]"
    unfolding aggregate_features_result by blast
  from f have "df < length s" by (simp add: lookup_def split: if_splits)
  with s' have "lookup s' df = Some (RawFrame (f\<lparr>is_wicket :=
             Some (map (\<lambda>d. if wicket_kind d \<noteq> None then 1 else 0) (deliveries f))\<rparr>))"
    by (simp add: lookup_def nth_append)
  with f show "\<exists>f. lookup s df = Some (RawFrame f) \<and>
           lookup s' df = Some (RawFrame (f\<lparr>is_wicket :=
             Some (map (\<lambda>d. if wicket_kind d \<noteq> None then 1 else 0) (deliveries f))\<rparr>))"
    by blast
  from s' show "\<forall>r<length s. r \<noteq> df \<longrightarrow> lookup s' r = lookup s r"
    by (simp add: lookup_def nth_append)
qed

theorem pipeline_frame_effects_witness:
  "(\<exists>a s'. clean_data [SummaryFrame sample_summary] 0 = Inr (a, s') \<and>
           lookup s' 0 = Some (SummaryFrame sample_summary)) \<and>
   aggregate_features [RawFrame \<lparr>deliveries = sample_deliveries, is_wicket = None\<rparr>] 0 =
     Inr (1, [RawFrame \<lparr>deliveries = sample_deliveries, is_wicket = Some [0, 0, 0, 1]\<rparr>,
              SummaryFrame sample_summary]) \<and>
   (\<exists>f. lookup [RawFrame \<lparr>deliveries = sample_deliveries, is_wicket = None\<rparr>] 0 = Some (RawFrame f) \<and>
        lookup [RawFrame \<lparr>deliveries = sample_deliveries, is_wicket = Some [0, 0, 0, 1]\<rparr>,
                SummaryFrame sample_summary] 0
          = Some (RawFrame (f\<lparr>is_wicket :=
              Some (map (\<lambda>d. if wicket_kind d \<noteq> None then 1 else 0) (deliveries f))\<rparr>)))"
proof (intro conjI)
  have l: "lookup [SummaryFrame sample_summary] 0 = Some (SummaryFrame sample_summary)"
    by (simp add: lookup_def)
  from clean_data_returns [OF l] obtain a s' where
    c: "clean_data [SummaryFrame sample_summary] 0 = Inr (a, s')"
    by blast
  from pipeline_frame_effects [of "[SummaryFrame sample_summary]" 0 a s'] c
  have "lookup s' 0 = lookup [SummaryFrame sample_summary] 0" by simp
  with c l show "\<exists>a s'. clean_data [SummaryFrame sample_summary] 0 = Inr (a, s') \<and>
           lookup s' 0 = Some (SummaryFrame sample_summary)" by auto
next
  show "aggregate_features [RawFrame \<lparr>deliveries = sample_deliveries, is_wicket = None\<rparr>] 0 =
     Inr (1, [RawFrame \<lparr>deliveries = sample_deliveries, is_wicket = Some [0, 0, 0, 1]\<rparr>,
              SummaryFrame sample_summary])"
    by (rule aggregate_features_sample)
next
  from pipeline_frame_effects
         [of "[RawFrame \<lparr>deliveries = sample_deliveries, is_wicket = None\<rparr>]" 0 1
             "[RawFrame \<lparr>deliveries = sample_deliveries, is_wicket = Some [0, 0, 0, 1]\<rparr>,
               SummaryFrame sample_summary]"]
       aggregate_features_sample
  show "\<exists>f. lookup [RawFrame \<lparr>deliveries = sample_deliveries, is_wicket = None\<rparr>] 0 = Some (RawFrame f) \<and>
        lookup [RawFrame \<lparr>deliveries = sample_deliveries, is_wicket = Some [0, 0, 0, 1]\<rparr>,
                SummaryFrame sample_summary] 0
          = Some (RawFrame (f\<lparr>is_wicket :=
              Some (map (\<lambda>d. if wicket_kind d \<noteq> None then 1 else 0) (deliveries f))\<rparr>))"
    by simp
qed

text \<open>
  C9 as stated fails for \<^verbatim>\<open>aggregate_features\<close>: after the call the caller's frame is
  not what it was before.
\<close>

theorem aggregate_features_changes_input:
  "aggregate_features [RawFrame \<lparr>deliveries = sample_deliveries, is_wicket = None\<rparr>] 0 =
     Inr (1, [RawFrame \<lparr>deliveries = sample_deliveries, is_wicket = Some [0, 0, 0, 1]\<rparr>,
              SummaryFrame sample_summary]) \<and>
   lookup [RawFrame \<lparr>deliveries = sample_deliveries, is_wicket = Some [0, 0, 0, 1]\<rparr>,
           SummaryFrame sample_summary] 0
     \<noteq> lookup [RawFrame \<lparr>deliveries = sample_deliveries, is_wicket = None\<rparr>] 0"
  by (simp add: aggregate_features_sample lookup_def)

end
